theory Spec2Isabelle
  imports Complex_Main "HOL-Library.AList"
begin

section \<open>Values and the wire\<close>

text \<open>
  The proxy handles dynamically typed values: whatever \<^verbatim>\<open>json.loads\<close> returns is stored
  in the fields of a Request or a Response without any check of its type. A value is
  therefore one of Python's JSON types. A dict is the list of its items in insertion
  order (its keys are distinct); floats are modelled by the rational number they denote
  (rounding, overflow and nan are outside the model).
\<close>

datatype pyval =
    PNone
  | PBool bool
  | PInt int
  | PFloat rat
  | PStr string
  | PList "pyval list"
  | PDict "(string \<times> pyval) list"

type_synonym pydict = "(string \<times> pyval) list"

text \<open>\<^verbatim>\<open>d.get(k, default)\<close> and \<^verbatim>\<open>d[k] = v\<close> on a dict.\<close>

definition dict_get :: "pydict \<Rightarrow> string \<Rightarrow> pyval \<Rightarrow> pyval" where
  "dict_get d k dflt = (case map_of d k of None \<Rightarrow> dflt | Some v \<Rightarrow> v)"

definition dict_set :: "pydict \<Rightarrow> string \<Rightarrow> pyval \<Rightarrow> pydict" where
  "dict_set d k v = AList.update k v d"

text \<open>Python's truth value of an object, as \<^verbatim>\<open>if x:\<close> and \<^verbatim>\<open>not x\<close> test it.\<close>

fun truthy :: "pyval \<Rightarrow> bool" where
  "truthy PNone = False"
| "truthy (PBool b) = b"
| "truthy (PInt i) = (i \<noteq> 0)"
| "truthy (PFloat r) = (r \<noteq> 0)"
| "truthy (PStr s) = (s \<noteq> [])"
| "truthy (PList xs) = (xs \<noteq> [])"
| "truthy (PDict d) = (d \<noteq> [])"

text \<open>The name of a value's type, as Python's error messages print it.\<close>

fun type_name :: "pyval \<Rightarrow> string" where
  "type_name PNone = ''NoneType''"
| "type_name (PBool b) = ''bool''"
| "type_name (PInt i) = ''int''"
| "type_name (PFloat r) = ''float''"
| "type_name (PStr s) = ''str''"
| "type_name (PList xs) = ''list''"
| "type_name (PDict d) = ''dict''"

definition quoted :: "string \<Rightarrow> string" where
  "quoted s = CHR 0x27 # s @ [CHR 0x27]"

text \<open>
  \<^verbatim>\<open>str(v)\<close>, which an f-string applies to a value it interpolates. On a string it is
  the string itself; on every other JSON value it is \<^verbatim>\<open>repr(v)\<close>, a builtin that is
  not modelled and is taken as the parameter \<open>repr\<close>.
\<close>

definition py_str :: "(pyval \<Rightarrow> string) \<Rightarrow> pyval \<Rightarrow> string" where
  "py_str repr v = (case v of PStr s \<Rightarrow> s | _ \<Rightarrow> repr v)"

text \<open>
  The exceptions the code raises or meets, all subclasses of \<^verbatim>\<open>Exception\<close>; each carries
  its single argument, which is what \<^verbatim>\<open>str(e)\<close> returns.
\<close>

datatype exn =
    PermissionError string
  | ValueError string
  | AttributeError string
  | TypeError string
  | OSError string
  | OverflowError string

fun str :: "exn \<Rightarrow> string" where
  "str (PermissionError m) = m"
| "str (ValueError m) = m"
| "str (AttributeError m) = m"
| "str (TypeError m) = m"
| "str (OSError m) = m"
| "str (OverflowError m) = m"

text \<open>
  A byte string is known by what \<^verbatim>\<open>json.loads(data.decode('utf-8'))\<close> makes of it:
  either it raises (the bytes are not UTF-8, or not a JSON text), with a diagnostic, or it
  returns a value. \<^verbatim>\<open>json.dumps(v).encode('utf-8')\<close> gives bytes that parse back to \<open>v\<close>;
  the JSON library itself is not part of the repository and is not modelled further.
\<close>

datatype bytes =
    Malformed string
  | Json pyval

section \<open>The message model (proxy/middleware.py)\<close>

record Request =
  method_req :: pyval
  params :: pyval
  id_req :: pyval
  jsonrpc_req :: pyval
  metadata_req :: pydict
  timestamp_req :: rat

record Response =
  result :: pyval
  error :: pyval
  id_resp :: pyval
  jsonrpc_resp :: pyval
  metadata_resp :: pydict
  timestamp_resp :: rat

text \<open>
  \<^verbatim>\<open>obj.get(...)\<close> on the parsed value: only a dict has the method, on any other value
  the attribute lookup raises AttributeError.
\<close>

definition no_get :: "pyval \<Rightarrow> exn" where
  "no_get v = AttributeError (quoted (type_name v) @ '' object has no attribute '' @ quoted ''get'')"

text \<open>
  \<^verbatim>\<open>Request.from_bytes\<close>. \<open>uuid\<close> is the text of the \<^verbatim>\<open>uuid.uuid4()\<close> drawn for the
  default of \<^verbatim>\<open>id\<close>, \<open>now\<close> the reading of \<^verbatim>\<open>time.time()\<close> that becomes the timestamp.
  Every exception inside the \<^verbatim>\<open>try\<close> is re-raised as a ValueError.
\<close>

definition Request_from_bytes :: "string \<Rightarrow> rat \<Rightarrow> bytes \<Rightarrow> exn + Request" where
  "Request_from_bytes uuid now data =
     (case data of
        Malformed diag \<Rightarrow> Inl (ValueError (''Invalid MCP request: '' @ diag))
      | Json obj \<Rightarrow>
          (case obj of
             PDict d \<Rightarrow>
               Inr \<lparr> method_req = dict_get d ''method'' (PStr ''''),
                     params = dict_get d ''params'' (PDict []),
                     id_req = dict_get d ''id'' (PStr uuid),
                     jsonrpc_req = dict_get d ''jsonrpc'' (PStr ''2.0''),
                     metadata_req = [],
                     timestamp_req = now \<rparr>
           | _ \<Rightarrow> Inl (ValueError (''Invalid MCP request: '' @ str (no_get obj)))))"

definition Request_to_bytes :: "Request \<Rightarrow> bytes" where
  "Request_to_bytes r =
     Json (PDict [(''jsonrpc'', jsonrpc_req r), (''method'', method_req r),
                  (''params'', params r), (''id'', id_req r)])"

definition Response_from_bytes :: "rat \<Rightarrow> bytes \<Rightarrow> exn + Response" where
  "Response_from_bytes now data =
     (case data of
        Malformed diag \<Rightarrow> Inl (ValueError (''Invalid MCP response: '' @ diag))
      | Json obj \<Rightarrow>
          (case obj of
             PDict d \<Rightarrow>
               Inr \<lparr> result = dict_get d ''result'' PNone,
                     error = dict_get d ''error'' PNone,
                     id_resp = dict_get d ''id'' PNone,
                     jsonrpc_resp = dict_get d ''jsonrpc'' (PStr ''2.0''),
                     metadata_resp = [],
                     timestamp_resp = now \<rparr>
           | _ \<Rightarrow> Inl (ValueError (''Invalid MCP response: '' @ str (no_get obj)))))"

definition Response_to_bytes :: "Response \<Rightarrow> bytes" where
  "Response_to_bytes r =
     Json (PDict ([(''jsonrpc'', jsonrpc_resp r), (''id'', id_resp r)] @
                  (if truthy (error r) then [(''error'', error r)]
                   else [(''result'', result r)])))"

text \<open>
  \<^verbatim>\<open>Response.error(message, code)\<close>: the other fields take their defaults
  (\<^verbatim>\<open>result = None\<close>, \<^verbatim>\<open>id = None\<close>, \<^verbatim>\<open>jsonrpc = "2.0"\<close>, empty metadata, the time of
  creation). This and \<^verbatim>\<open>from_bytes\<close> are the only ways the proxy builds a Response, and
  both pass the error explicitly; the default of the field \<^verbatim>\<open>error\<close>, which the class
  method of the same name shadows, is never used.
\<close>

definition Response_error :: "rat \<Rightarrow> string \<Rightarrow> int \<Rightarrow> Response" where
  "Response_error now message code =
     \<lparr> result = PNone,
       error = PDict [(''code'', PInt code), (''message'', PStr message)],
       id_resp = PNone,
       jsonrpc_resp = PStr ''2.0'',
       metadata_resp = [],
       timestamp_resp = now \<rparr>"

definition default_code :: int where
  "default_code = - 32603"

section \<open>Stages and the chain (proxy/middleware.py)\<close>

text \<open>
  A stage is an object with the two methods of the abstract class \<^verbatim>\<open>Middleware\<close>. Every
  stage of the repository works on the object it is given and returns that same object,
  so a method is modelled by what it does to the object during the call under
  consideration:
  \<^item> \<open>process_request\<close> gives the exception it raises, if any, and the Request as the call
    leaves it (changes made before a \<^verbatim>\<open>raise\<close> stay);
  \<^item> \<open>process_response\<close> gives the exception it raises or the Response it returns; it
    reads the Request and does not change it.

  A stage that builds a new Request and returns it in place of its argument is outside
  this model: for such a stage the object that \<^verbatim>\<open>process_request\<close> of the chain returns
  and the decoded object, which \<^verbatim>\<open>handle_request\<close> hands to \<^verbatim>\<open>process_response\<close>, would
  differ.
\<close>

record Middleware =
  process_request :: "Request \<Rightarrow> exn option \<times> Request"
  process_response :: "Response \<Rightarrow> Request \<Rightarrow> exn + Response"

text \<open>
  What is observed of a run: the calls of the stages' methods, by the position of the
  stage in the chain, and the call of the router with the bytes it is given.
\<close>

datatype event =
    OnRequest nat
  | Forward bytes
  | OnResponse nat

text \<open>
  The body of the loop \<^verbatim>\<open>for mw in ...: request = await mw.process_request(request)\<close>
  over the stages still to come, each with its position. An exception leaves the loop.
\<close>

fun process_request_loop ::
  "(nat \<times> Middleware) list \<Rightarrow> Request \<Rightarrow> event list \<times> exn option \<times> Request" where
  "process_request_loop [] request = ([], None, request)"
| "process_request_loop ((i, mw) # rest) request =
     (case process_request mw request of
        (Some e, request') \<Rightarrow> ([OnRequest i], Some e, request')
      | (None, request') \<Rightarrow>
          (case process_request_loop rest request' of
             (calls, r) \<Rightarrow> (OnRequest i # calls, r)))"

fun process_response_loop ::
  "(nat \<times> Middleware) list \<Rightarrow> Response \<Rightarrow> Request \<Rightarrow> event list \<times> (exn + Response)" where
  "process_response_loop [] response request = ([], Inr response)"
| "process_response_loop ((i, mw) # rest) response request =
     (case process_response mw response request of
        Inl e \<Rightarrow> ([OnResponse i], Inl e)
      | Inr response' \<Rightarrow>
          (case process_response_loop rest response' request of
             (calls, r) \<Rightarrow> (OnResponse i # calls, r)))"

text \<open>
  \<^verbatim>\<open>MiddlewareChain.process_request\<close> iterates over \<^verbatim>\<open>self.middleware\<close>,
  \<^verbatim>\<open>MiddlewareChain.process_response\<close> over \<^verbatim>\<open>reversed(self.middleware)\<close>.
\<close>

definition MiddlewareChain_process_request ::
  "Middleware list \<Rightarrow> Request \<Rightarrow> event list \<times> exn option \<times> Request" where
  "MiddlewareChain_process_request middleware request =
     process_request_loop (enumerate 0 middleware) request"

definition MiddlewareChain_process_response ::
  "Middleware list \<Rightarrow> Response \<Rightarrow> Request \<Rightarrow> event list \<times> (exn + Response)" where
  "MiddlewareChain_process_response middleware response request =
     process_response_loop (rev (enumerate 0 middleware)) response request"

section \<open>The router (proxy/router.py)\<close>

text \<open>
  What the exchange with the target server comes to, for the bytes sent: the bytes that
  \<^verbatim>\<open>reader.read(4096)\<close> returns, an exception of one of the I/O calls (connection
  refused, reset, ...), or an \<^verbatim>\<open>await\<close> that never completes (the server accepts the
  connection and neither answers nor closes it).
\<close>

datatype io =
    Replies bytes
  | Fails exn
  | Hangs

text \<open>
  \<^verbatim>\<open>MCPRouter.forward(data)\<close>: it has no other parameter, and no timeout; an exception is
  logged and raised again. \<open>None\<close> is a call that does not return.
\<close>

definition MCPRouter_forward :: "(bytes \<Rightarrow> io) \<Rightarrow> bytes \<Rightarrow> (exn + bytes) option" where
  "MCPRouter_forward target data =
     (case target data of
        Replies response \<Rightarrow> Some (Inr response)
      | Fails e \<Rightarrow> Some (Inl e)
      | Hangs \<Rightarrow> None)"

section \<open>Handling one request (proxy/server.py)\<close>

text \<open>
  The values drawn from \<^verbatim>\<open>uuid.uuid4()\<close> and \<^verbatim>\<open>time.time()\<close> during one call of
  \<^verbatim>\<open>handle_request\<close>: the UUID and the timestamp of the decoded Request, the three
  readings of the observability stage (one in \<^verbatim>\<open>process_request\<close>, two in
  \<^verbatim>\<open>process_response\<close>), the timestamp of the decoded Response and that of an error
  Response.
\<close>

record Draws =
  uuid4 :: string
  t_request :: rat
  t_start :: rat
  t_default :: rat
  t_end :: rat
  t_response :: rat
  t_error :: rat

text \<open>
  The \<^verbatim>\<open>try\<close> block of \<^verbatim>\<open>EnterpriseProxy.handle_request\<close>, for a chain \<open>middleware\<close> and
  a target server: the calls made, and the bytes returned or the exception raised.
  The Request given to \<^verbatim>\<open>process_response\<close> is the decoded object \<^verbatim>\<open>request\<close>; the
  stages have worked on this very object and the chain has returned it, so that its
  state is \<open>processed_request\<close>.
\<close>

definition handle_request_try ::
  "Middleware list \<Rightarrow> (bytes \<Rightarrow> io) \<Rightarrow> Draws \<Rightarrow> bytes \<Rightarrow> (event list \<times> (exn + bytes)) option" where
  "handle_request_try middleware target dr raw_request =
     (case Request_from_bytes (uuid4 dr) (t_request dr) raw_request of
        Inl e \<Rightarrow> Some ([], Inl e)
      | Inr request \<Rightarrow>
          (case MiddlewareChain_process_request middleware request of
             (calls, Some e, request') \<Rightarrow> Some (calls, Inl e)
           | (calls, None, processed_request) \<Rightarrow>
               (let sent = Request_to_bytes processed_request in
                case MCPRouter_forward target sent of
                  None \<Rightarrow> None
                | Some (Inl e) \<Rightarrow> Some (calls @ [Forward sent], Inl e)
                | Some (Inr raw_response) \<Rightarrow>
                    (case Response_from_bytes (t_response dr) raw_response of
                       Inl e \<Rightarrow> Some (calls @ [Forward sent], Inl e)
                     | Inr response \<Rightarrow>
                         (case MiddlewareChain_process_response middleware response
                                 processed_request of
                            (calls', Inl e) \<Rightarrow> Some (calls @ Forward sent # calls', Inl e)
                          | (calls', Inr processed_response) \<Rightarrow>
                              Some (calls @ Forward sent # calls',
                                    Inr (Response_to_bytes processed_response)))))))"

text \<open>
  \<^verbatim>\<open>handle_request\<close> with its handler \<^verbatim>\<open>except Exception as e\<close>, which answers
  \<^verbatim>\<open>Response.error(str(e)).to_bytes()\<close>.
\<close>

definition error_reply :: "Draws \<Rightarrow> exn \<Rightarrow> bytes" where
  "error_reply dr e = Response_to_bytes (Response_error (t_error dr) (str e) default_code)"

definition handle_request ::
  "Middleware list \<Rightarrow> (bytes \<Rightarrow> io) \<Rightarrow> Draws \<Rightarrow> bytes \<Rightarrow> (event list \<times> bytes) option" where
  "handle_request middleware target dr raw_request =
     (case handle_request_try middleware target dr raw_request of
        None \<Rightarrow> None
      | Some (calls, Inr reply) \<Rightarrow> Some (calls, reply)
      | Some (calls, Inl e) \<Rightarrow> Some (calls, error_reply dr e))"

section \<open>The four stages\<close>

text \<open>
  The configuration classes of config.py, with the fields the stages read.
\<close>

record SecurityConfig =
  rbac_enabled :: bool

record ApprovalConfig =
  operations :: "string list"

record AuditConfig =
  enabled_audit :: bool

record GovernanceConfig =
  approvals :: "ApprovalConfig list"
  audit :: AuditConfig

record RateLimitConfig =
  enabled_rate :: bool

record BudgetConfig =
  enabled_budget :: bool

record CostConfig =
  tracking_enabled :: bool
  rate_limits :: RateLimitConfig
  budget :: BudgetConfig

text \<open>
  The decisions the stages delegate to methods of their own, which a deployment
  overrides: \<^verbatim>\<open>_authenticate\<close>, \<^verbatim>\<open>_authorize\<close>, \<^verbatim>\<open>_get_approval\<close>, \<^verbatim>\<open>_check_rate_limit\<close>,
  \<^verbatim>\<open>_check_budget\<close> and \<^verbatim>\<open>_calculate_cost\<close>. The stages are modelled for any such
  methods; \<open>shipped\<close> holds the bodies the repository has. The cost that
  \<^verbatim>\<open>_calculate_cost\<close> returns is the double written \<^verbatim>\<open>0.001\<close>, which is
  \<open>1152921504606847 / 2 ^ 60\<close>.
\<close>

record Collaborators =
  authenticate :: "Request \<Rightarrow> string option"
  authorize :: "string \<Rightarrow> pyval \<Rightarrow> bool"
  get_approval :: "Request \<Rightarrow> string option"
  check_rate_limit :: "pyval \<Rightarrow> bool"
  check_budget :: "pyval \<Rightarrow> bool"
  calculate_cost :: "Request \<Rightarrow> Response \<Rightarrow> rat"

definition shipped :: Collaborators where
  "shipped =
     \<lparr> authenticate = (\<lambda>request. Some ''demo_user''),
       authorize = (\<lambda>user operation. True),
       get_approval = (\<lambda>request. Some ''auto_approved''),
       check_rate_limit = (\<lambda>user. True),
       check_budget = (\<lambda>user. True),
       calculate_cost = (\<lambda>request response. 1152921504606847 / 1152921504606846976) \<rparr>"

text \<open>
  \<^verbatim>\<open>not x\<close> for an optional string: it is None or empty. The stages test it on the user
  that \<^verbatim>\<open>_authenticate\<close> returns and on the approval that \<^verbatim>\<open>_get_approval\<close> returns.
\<close>

fun absent :: "string option \<Rightarrow> bool" where
  "absent None = True"
| "absent (Some s) = (s = [])"

subsection \<open>security/middleware.py\<close>

definition SecurityMiddleware_process_request ::
  "(pyval \<Rightarrow> string) \<Rightarrow> Collaborators \<Rightarrow> SecurityConfig \<Rightarrow> Request \<Rightarrow> exn option \<times> Request" where
  "SecurityMiddleware_process_request repr co config request =
     (case authenticate co request of
        None \<Rightarrow> (Some (PermissionError ''Authentication failed''), request)
      | Some user \<Rightarrow>
          if user = [] then (Some (PermissionError ''Authentication failed''), request)
          else
            let request' = request\<lparr>metadata_req :=
                             dict_set (metadata_req request) ''user'' (PStr user)\<rparr> in
            if rbac_enabled config \<and> \<not> authorize co user (method_req request') then
              (Some (PermissionError (''User '' @ user @ '' not authorized for '' @
                                      py_str repr (method_req request'))), request')
            else (None, request'))"

definition SecurityMiddleware_process_response :: "Response \<Rightarrow> Request \<Rightarrow> exn + Response" where
  "SecurityMiddleware_process_response response request = Inr response"

definition SecurityMiddleware ::
  "(pyval \<Rightarrow> string) \<Rightarrow> Collaborators \<Rightarrow> SecurityConfig \<Rightarrow> Middleware" where
  "SecurityMiddleware repr co config =
     \<lparr> process_request = SecurityMiddleware_process_request repr co config,
       process_response = SecurityMiddleware_process_response \<rparr>"

subsection \<open>observability/middleware.py\<close>

text \<open>
  \<^verbatim>\<open>time.time() - start_time\<close>: a float minus a float is a float; an int (or a
  bool, which is an int) is first converted to a float, which raises OverflowError when
  it rounds to a value beyond the largest double, that is from \<open>2 ^ 1024 - 2 ^ 970\<close> on;
  a float minus any other value raises TypeError. The rounding of the conversion and of
  the difference is outside the model.
\<close>

definition float_sub :: "rat \<Rightarrow> pyval \<Rightarrow> exn + pyval" where
  "float_sub a v =
     (case v of
        PFloat b \<Rightarrow> Inr (PFloat (a - b))
      | PInt i \<Rightarrow>
          if \<bar>i\<bar> < 2 ^ 1024 - 2 ^ 970 then Inr (PFloat (a - of_int i))
          else Inl (OverflowError ''int too large to convert to float'')
      | PBool b \<Rightarrow> Inr (PFloat (a - (if b then 1 else 0)))
      | _ \<Rightarrow> Inl (TypeError (''unsupported operand type(s) for -: '' @ quoted ''float'' @
                              '' and '' @ quoted (type_name v))))"

definition ObservabilityMiddleware_process_request :: "rat \<Rightarrow> Request \<Rightarrow> exn option \<times> Request" where
  "ObservabilityMiddleware_process_request now request =
     (None, request\<lparr>metadata_req := dict_set (metadata_req request) ''start_time'' (PFloat now)\<rparr>)"

text \<open>
  \<open>now1\<close> is the reading taken for the default of \<^verbatim>\<open>metadata.get("start_time", ...)\<close>,
  which is evaluated whether the key is there or not; \<open>now2\<close> is the reading the duration
  is computed from.
\<close>

definition ObservabilityMiddleware_process_response ::
  "rat \<Rightarrow> rat \<Rightarrow> Response \<Rightarrow> Request \<Rightarrow> exn + Response" where
  "ObservabilityMiddleware_process_response now1 now2 response request =
     (let start_time = dict_get (metadata_req request) ''start_time'' (PFloat now1) in
      case float_sub now2 start_time of
        Inl e \<Rightarrow> Inl e
      | Inr duration \<Rightarrow>
          Inr (response\<lparr>metadata_resp :=
                 dict_set (metadata_resp response) ''duration_seconds'' duration\<rparr>))"

definition ObservabilityMiddleware :: "Draws \<Rightarrow> Middleware" where
  "ObservabilityMiddleware dr =
     \<lparr> process_request = ObservabilityMiddleware_process_request (t_start dr),
       process_response = ObservabilityMiddleware_process_response (t_default dr) (t_end dr) \<rparr>"

subsection \<open>governance/middleware.py\<close>

text \<open>
  \<^verbatim>\<open>_requires_approval\<close>: some approval configuration lists the method among its
  operations. The operations are strings, so only a string method can be among them.
\<close>

definition requires_approval :: "GovernanceConfig \<Rightarrow> Request \<Rightarrow> bool" where
  "requires_approval config request =
     list_ex (\<lambda>approval_config. method_req request \<in> set (map PStr (operations approval_config)))
       (approvals config)"

text \<open>The audit entries are written to the log only and are left out.\<close>

definition GovernanceMiddleware_process_request ::
  "(pyval \<Rightarrow> string) \<Rightarrow> Collaborators \<Rightarrow> GovernanceConfig \<Rightarrow> Request \<Rightarrow> exn option \<times> Request" where
  "GovernanceMiddleware_process_request repr co config request =
     (if requires_approval config request then
        (case get_approval co request of
           None \<Rightarrow>
             (Some (PermissionError (''Approval required for '' @ py_str repr (method_req request))),
              request)
         | Some approval \<Rightarrow>
             if approval = [] then
               (Some (PermissionError (''Approval required for '' @ py_str repr (method_req request))),
                request)
             else
               (None, request\<lparr>metadata_req :=
                        dict_set (metadata_req request) ''approval'' (PStr approval)\<rparr>))
      else (None, request))"

definition GovernanceMiddleware_process_response :: "Response \<Rightarrow> Request \<Rightarrow> exn + Response" where
  "GovernanceMiddleware_process_response response request = Inr response"

definition GovernanceMiddleware ::
  "(pyval \<Rightarrow> string) \<Rightarrow> Collaborators \<Rightarrow> GovernanceConfig \<Rightarrow> Middleware" where
  "GovernanceMiddleware repr co config =
     \<lparr> process_request = GovernanceMiddleware_process_request repr co config,
       process_response = GovernanceMiddleware_process_response \<rparr>"

subsection \<open>cost_management/middleware.py\<close>

definition CostManagementMiddleware_process_request ::
  "(pyval \<Rightarrow> string) \<Rightarrow> Collaborators \<Rightarrow> CostConfig \<Rightarrow> Request \<Rightarrow> exn option \<times> Request" where
  "CostManagementMiddleware_process_request repr co config request =
     (let user = dict_get (metadata_req request) ''user'' (PStr ''anonymous'') in
      if enabled_rate (rate_limits config) \<and> \<not> check_rate_limit co user then
        (Some (PermissionError (''Rate limit exceeded for user: '' @ py_str repr user)), request)
      else if enabled_budget (budget config) \<and> \<not> check_budget co user then
        (Some (PermissionError (''Budget limit exceeded for user: '' @ py_str repr user)), request)
      else (None, request))"

definition CostManagementMiddleware_process_response ::
  "Collaborators \<Rightarrow> Response \<Rightarrow> Request \<Rightarrow> exn + Response" where
  "CostManagementMiddleware_process_response co response request =
     Inr (response\<lparr>metadata_resp :=
            dict_set (metadata_resp response) ''cost_usd''
              (PFloat (calculate_cost co request response))\<rparr>)"

definition CostManagementMiddleware ::
  "(pyval \<Rightarrow> string) \<Rightarrow> Collaborators \<Rightarrow> CostConfig \<Rightarrow> Middleware" where
  "CostManagementMiddleware repr co config =
     \<lparr> process_request = CostManagementMiddleware_process_request repr co config,
       process_response = CostManagementMiddleware_process_response co \<rparr>"

section \<open>The proxy (proxy/server.py)\<close>

record FrameworkConfig =
  security :: SecurityConfig
  governance :: GovernanceConfig
  cost_management :: CostConfig

text \<open>
  \<^verbatim>\<open>_init_middleware\<close>: the four configuration objects are instances of dataclasses,
  which are always true, so the four stages are always added, in this order.
\<close>

definition init_middleware ::
  "(pyval \<Rightarrow> string) \<Rightarrow> Collaborators \<Rightarrow> FrameworkConfig \<Rightarrow> Draws \<Rightarrow> Middleware list" where
  "init_middleware repr co config dr =
     [SecurityMiddleware repr co (security config),
      ObservabilityMiddleware dr,
      GovernanceMiddleware repr co (governance config),
      CostManagementMiddleware repr co (cost_management config)]"

definition EnterpriseProxy_handle_request ::
  "(pyval \<Rightarrow> string) \<Rightarrow> Collaborators \<Rightarrow> FrameworkConfig \<Rightarrow> (bytes \<Rightarrow> io) \<Rightarrow> Draws \<Rightarrow> bytes
     \<Rightarrow> (event list \<times> bytes) option" where
  "EnterpriseProxy_handle_request repr co config target dr raw_request =
     handle_request (init_middleware repr co config dr) target dr raw_request"

section \<open>Reading a message\<close>

text \<open>
  The members of an encoded envelope, in the order they are written; a byte string that
  is not a JSON object has none.
\<close>

definition members :: "bytes \<Rightarrow> pydict" where
  "members b = (case b of Json (PDict d) \<Rightarrow> d | _ \<Rightarrow> [])"

definition is_object :: "bytes \<Rightarrow> bool" where
  "is_object b = (case b of Json (PDict d) \<Rightarrow> True | _ \<Rightarrow> False)"

text \<open>Exactly one of result and error is set: the result is present iff the error is absent.\<close>

definition exactly_one :: "Response \<Rightarrow> bool" where
  "exactly_one r = ((result r \<noteq> PNone) = (error r = PNone))"

section \<open>Sample runs\<close>

text \<open>
  Data for the runs the theorems are tried on: the draws of one call, a configuration with
  one approval rule for \<^verbatim>\<open>issues.close\<close>, the request
  \<^verbatim>\<open>{"method": "issues.close", "id": "1"}\<close>, what it decodes to, and a target server that
  answers every request with a result and echoes the id.
\<close>

definition draws0 :: Draws where
  "draws0 = \<lparr> uuid4 = ''u'', t_request = 0, t_start = 1, t_default = 2, t_end = 3,
               t_response = 4, t_error = 5 \<rparr>"

definition config0 :: FrameworkConfig where
  "config0 =
     \<lparr> security = \<lparr> rbac_enabled = True \<rparr>,
       governance = \<lparr> approvals = [\<lparr> operations = [''issues.close''] \<rparr>],
                      audit = \<lparr> enabled_audit = True \<rparr> \<rparr>,
       cost_management = \<lparr> tracking_enabled = True,
                           rate_limits = \<lparr> enabled_rate = True \<rparr>,
                           budget = \<lparr> enabled_budget = True \<rparr> \<rparr> \<rparr>"

text \<open>The same configuration with the rule written as the pattern \<^verbatim>\<open>*:state=closed\<close>.\<close>

definition config1 :: FrameworkConfig where
  "config1 =
     config0\<lparr>governance := \<lparr> approvals = [\<lparr> operations = [''*:state=closed''] \<rparr>],
                               audit = \<lparr> enabled_audit = True \<rparr> \<rparr>\<rparr>"

definition close_issue :: bytes where
  "close_issue = Json (PDict [(''method'', PStr ''issues.close''), (''id'', PStr ''1'')])"

definition request0 :: Request where
  "request0 = \<lparr> method_req = PStr ''issues.close'', params = PDict [], id_req = PStr ''1'',
                 jsonrpc_req = PStr ''2.0'', metadata_req = [], timestamp_req = 0 \<rparr>"

definition echo :: "bytes \<Rightarrow> io" where
  "echo sent =
     Replies (Json (PDict [(''jsonrpc'', PStr ''2.0''),
                           (''id'', dict_get (members sent) ''id'' PNone),
                           (''result'', PStr ''ok'')]))"

text \<open>The sample runs format strings only, so any \<open>repr\<close> will do.\<close>

definition repr0 :: "pyval \<Rightarrow> string" where
  "repr0 v = ''...''"

text \<open>
  Deployments whose \<^verbatim>\<open>_authenticate\<close> knows nobody, whose \<^verbatim>\<open>_authorize\<close> allows nothing
  and whose \<^verbatim>\<open>_get_approval\<close> grants nothing.
\<close>

definition strangers :: Collaborators where
  "strangers = shipped\<lparr>authenticate := (\<lambda>request. None)\<rparr>"

definition forbidding :: Collaborators where
  "forbidding = shipped\<lparr>authorize := (\<lambda>user operation. False)\<rparr>"

definition refusing :: Collaborators where
  "refusing = shipped\<lparr>get_approval := (\<lambda>request. None)\<rparr>"

text \<open>A deployment whose \<^verbatim>\<open>_get_approval\<close> refuses \<^verbatim>\<open>issues.close\<close> and nothing else.\<close>

definition picky :: Collaborators where
  "picky = shipped\<lparr>get_approval := (\<lambda>request.
     if method_req request = PStr ''issues.close'' then None else Some ''auto_approved'')\<rparr>"

text \<open>
  Two stages for counting calls: one marks the Request and the Response with its key, the
  other blocks every request.
\<close>

definition tagging :: "string \<Rightarrow> Middleware" where
  "tagging k =
     \<lparr> process_request = (\<lambda>request.
         (None, request\<lparr>metadata_req := dict_set (metadata_req request) k (PBool True)\<rparr>)),
       process_response = (\<lambda>response request.
         Inr (response\<lparr>metadata_resp := dict_set (metadata_resp response) k (PBool True)\<rparr>)) \<rparr>"

definition blocking :: "string \<Rightarrow> Middleware" where
  "blocking reason =
     \<lparr> process_request = (\<lambda>request. (Some (PermissionError reason), request)),
       process_response = (\<lambda>response request. Inr response) \<rparr>"

lemmas run =
  draws0_def config0_def config1_def close_issue_def request0_def echo_def repr0_def
  strangers_def forbidding_def refusing_def picky_def shipped_def tagging_def blocking_def members_def
  Request_from_bytes_def Request_to_bytes_def Response_from_bytes_def Response_to_bytes_def
  Response_error_def default_code_def dict_get_def dict_set_def py_str_def
  MiddlewareChain_process_request_def MiddlewareChain_process_response_def
  MCPRouter_forward_def handle_request_try_def error_reply_def handle_request_def
  SecurityMiddleware_process_request_def SecurityMiddleware_process_response_def
  SecurityMiddleware_def float_sub_def ObservabilityMiddleware_process_request_def
  ObservabilityMiddleware_process_response_def ObservabilityMiddleware_def
  requires_approval_def GovernanceMiddleware_process_request_def
  GovernanceMiddleware_process_response_def GovernanceMiddleware_def
  CostManagementMiddleware_process_request_def CostManagementMiddleware_process_response_def
  CostManagementMiddleware_def init_middleware_def EnterpriseProxy_handle_request_def

section \<open>The codec\<close>

text \<open>
  C5, as amended. Decoding a request fails exactly when the bytes are not the text of a
  JSON object: they do not parse, or they parse to a value that is not an object. Every
  failure is a ValueError that carries the diagnostic: that of the parser, or that of the
  attribute lookup \<^verbatim>\<open>obj.get\<close> on a value of another type. An
  object always decodes, whatever members it has: a missing \<^verbatim>\<open>method\<close> becomes the empty
  string, a missing \<^verbatim>\<open>id\<close> a fresh UUID, missing \<^verbatim>\<open>params\<close> the empty dict, a missing
  \<^verbatim>\<open>jsonrpc\<close> the string 2.0; members with other names are not looked at.
\<close>

theorem Request_from_bytes_fails_iff_no_object:
  "isl (Request_from_bytes uuid now data) = (\<not> is_object data) \<and>
   Request_from_bytes uuid now (Malformed diag) =
     Inl (ValueError (''Invalid MCP request: '' @ diag)) \<and>
   (\<not> is_object (Json v) \<longrightarrow>
      Request_from_bytes uuid now (Json v) =
        Inl (ValueError (''Invalid MCP request: '' @ quoted (type_name v) @
                         '' object has no attribute '' @ quoted ''get''))) \<and>
   Request_from_bytes uuid now (Json (PDict d)) =
     Inr \<lparr> method_req = dict_get d ''method'' (PStr []),
           params = dict_get d ''params'' (PDict []),
           id_req = dict_get d ''id'' (PStr uuid),
           jsonrpc_req = dict_get d ''jsonrpc'' (PStr ''2.0''),
           metadata_req = [],
           timestamp_req = now \<rparr>"
proof -
  have "isl (Request_from_bytes uuid now data) = (\<not> is_object data)"
    by (simp add: Request_from_bytes_def is_object_def split: bytes.splits pyval.splits)
  moreover have "Request_from_bytes uuid now (Malformed diag) =
      Inl (ValueError (''Invalid MCP request: '' @ diag))"
    by (simp add: Request_from_bytes_def)
  moreover have "Request_from_bytes uuid now (Json v) =
      Inl (ValueError (''Invalid MCP request: '' @ quoted (type_name v) @
                       '' object has no attribute '' @ quoted ''get''))"
    if "\<not> is_object (Json v)"
    using that by (cases v) (simp_all add: Request_from_bytes_def is_object_def no_get_def)
  moreover have "Request_from_bytes uuid now (Json (PDict d)) =
     Inr \<lparr> method_req = dict_get d ''method'' (PStr []),
           params = dict_get d ''params'' (PDict []),
           id_req = dict_get d ''id'' (PStr uuid),
           jsonrpc_req = dict_get d ''jsonrpc'' (PStr ''2.0''),
           metadata_req = [],
           timestamp_req = now \<rparr>"
    by (simp add: Request_from_bytes_def)
  ultimately show ?thesis by blast
qed

theorem Request_from_bytes_fails_iff_no_object_witness:
  "\<not> is_object (Json (PList [PInt 1])) \<and>
   Request_from_bytes ''u'' 0 (Json (PList [PInt 1])) =
     Inl (ValueError (''Invalid MCP request: '' @ quoted ''list'' @
                      '' object has no attribute '' @ quoted ''get''))"
proof -
  have h: "\<not> is_object (Json (PList [PInt 1]))"
    by (simp add: is_object_def)
  from Request_from_bytes_fails_iff_no_object [where v = "PList [PInt 1]" and uuid = "''u''"
      and now = 0] h
  show ?thesis by simp
qed

text \<open>A member with a name of no field changes nothing.\<close>

lemma unknown_member_ignored:
  "k \<notin> {''method'', ''params'', ''id'', ''jsonrpc''} \<Longrightarrow>
     Request_from_bytes uuid now (Json (PDict (d @ [(k, v)]))) =
     Request_from_bytes uuid now (Json (PDict d))"
  by (auto simp add: Request_from_bytes_def dict_get_def map_add_def split: option.splits)

text \<open>
  C5 as stated fails on the bytes \<^verbatim>\<open>{}\<close>: method and id are both missing, and the
  request decodes.
\<close>

theorem Request_from_bytes_missing_fields_decode:
  "Request_from_bytes ''u'' 0 (Json (PDict [])) =
     Inr \<lparr> method_req = PStr [], params = PDict [], id_req = PStr ''u'',
           jsonrpc_req = PStr ''2.0'', metadata_req = [], timestamp_req = 0 \<rparr>"
  by (simp add: Request_from_bytes_def dict_get_def)

text \<open>
  C7, as amended. Decoding the encoding of a Request gives back its method, params, id
  and jsonrpc; the metadata are not transmitted and come back empty, and the timestamp is
  the time of decoding. So the result equals the Request exactly when its metadata are
  empty and its timestamp is the time of decoding.
\<close>

theorem Request_round_trip:
  "Request_from_bytes uuid now (Request_to_bytes req) =
     Inr (req\<lparr>metadata_req := [], timestamp_req := now\<rparr>) \<and>
   (Request_from_bytes uuid now (Request_to_bytes req) = Inr req) =
     (metadata_req req = [] \<and> timestamp_req req = now)"
  by (cases req) (auto simp add: Request_from_bytes_def Request_to_bytes_def dict_get_def)

text \<open>
  C7 as stated fails on a Request that a stage has annotated: the metadata are
  lost in the round trip.
\<close>

theorem Request_round_trip_loses_metadata:
  "Request_from_bytes ''u'' 2
     (Request_to_bytes \<lparr> method_req = PStr ''tools/list'', params = PDict [], id_req = PStr ''1'',
                         jsonrpc_req = PStr ''2.0'',
                         metadata_req = [(''user'', PStr ''demo_user'')],
                         timestamp_req = 1 \<rparr>) =
     Inr \<lparr> method_req = PStr ''tools/list'', params = PDict [], id_req = PStr ''1'',
           jsonrpc_req = PStr ''2.0'', metadata_req = [], timestamp_req = 2 \<rparr>"
  by (simp add: Request_from_bytes_def Request_to_bytes_def dict_get_def)

text \<open>
  C10, as amended. The encoded envelope has the members jsonrpc, id and one more: error,
  with the error field, when the error field is truthy, and result, with the result
  field, otherwise. So a Response whose error is None or an empty mapping is encoded as a
  success envelope (the empty error is dropped, the result is null if unset), and a
  Response with a truthy error is encoded as an error envelope, also when it carries a
  result: then the result is dropped.
\<close>

theorem Response_to_bytes_error_or_result:
  "map fst (members (Response_to_bytes r)) =
     [''jsonrpc'', ''id'', if truthy (error r) then ''error'' else ''result''] \<and>
   map_of (members (Response_to_bytes r)) ''error'' =
     (if truthy (error r) then Some (error r) else None) \<and>
   map_of (members (Response_to_bytes r)) ''result'' =
     (if truthy (error r) then None else Some (result r))"
  by (simp add: Response_to_bytes_def members_def)

text \<open>
  C10 as stated fails on a Response that carries both a result and an error: it is
  encoded as an error envelope, and it is the result that is dropped.
\<close>

theorem Response_to_bytes_both_drops_result:
  "Response_to_bytes
     \<lparr> result = PInt 1,
       error = PDict [(''code'', PInt 1), (''message'', PStr ''x'')],
       id_resp = PStr ''1'', jsonrpc_resp = PStr ''2.0'',
       metadata_resp = [], timestamp_resp = 0 \<rparr> =
   Json (PDict [(''jsonrpc'', PStr ''2.0''), (''id'', PStr ''1''),
                (''error'', PDict [(''code'', PInt 1), (''message'', PStr ''x'')])])"
  by (simp add: Response_to_bytes_def)

text \<open>
  C6, as amended. A Response built by \<^verbatim>\<open>Response.error\<close> has no result and has the
  error made of the code and the message, so exactly one of the two is set. A Response
  decoded from bytes carries the members result and error of the envelope as they are
  (None for a member that is missing): exactly one is set iff exactly one of the two
  members is present and not null. Nothing in between checks or repairs it.
\<close>

theorem Response_exactly_one:
  "result (Response_error now message code) = PNone \<and>
   error (Response_error now message code) =
     PDict [(''code'', PInt code), (''message'', PStr message)] \<and>
   exactly_one (Response_error now message code) \<and>
   Response_from_bytes now (Json (PDict d)) =
     Inr \<lparr> result = dict_get d ''result'' PNone,
           error = dict_get d ''error'' PNone,
           id_resp = dict_get d ''id'' PNone,
           jsonrpc_resp = dict_get d ''jsonrpc'' (PStr ''2.0''),
           metadata_resp = [],
           timestamp_resp = now \<rparr> \<and>
   (Response_from_bytes now (Json (PDict d)) = Inr r \<longrightarrow>
      result r = dict_get d ''result'' PNone \<and> error r = dict_get d ''error'' PNone \<and>
      exactly_one r =
        ((dict_get d ''result'' PNone \<noteq> PNone) = (dict_get d ''error'' PNone = PNone)))"
  by (auto simp add: exactly_one_def Response_error_def Response_from_bytes_def)

theorem Response_exactly_one_witness:
  "exactly_one (Response_error 0 ''x'' default_code) \<and>
   Response_from_bytes 0 (Json (PDict [(''id'', PStr ''1''), (''result'', PInt 7)])) =
     Inr \<lparr> result = PInt 7, error = PNone, id_resp = PStr ''1'', jsonrpc_resp = PStr ''2.0'',
           metadata_resp = [], timestamp_resp = 0 \<rparr> \<and>
   exactly_one \<lparr> result = PInt 7, error = PNone, id_resp = PStr ''1'',
                 jsonrpc_resp = PStr ''2.0'', metadata_resp = [], timestamp_resp = 0 \<rparr>"
proof -
  have h: "Response_from_bytes 0 (Json (PDict [(''id'', PStr ''1''), (''result'', PInt 7)])) =
     Inr \<lparr> result = PInt 7, error = PNone, id_resp = PStr ''1'', jsonrpc_resp = PStr ''2.0'',
           metadata_resp = [], timestamp_resp = 0 \<rparr>"
    by (simp add: Response_from_bytes_def dict_get_def)
  from Response_exactly_one [of 0 "''x''" default_code
      "[(''id'', PStr ''1''), (''result'', PInt 7)]"
      "\<lparr> result = PInt 7, error = PNone, id_resp = PStr ''1'', jsonrpc_resp = PStr ''2.0'',
         metadata_resp = [], timestamp_resp = 0 \<rparr>"] h
  show ?thesis by (simp add: dict_get_def)
qed

text \<open>
  C6 as stated fails on a reply of the target server that carries both members:
  the decoded Response has both a result and an error.
\<close>

theorem Response_from_bytes_both_set:
  "Response_from_bytes 0
     (Json (PDict [(''jsonrpc'', PStr ''2.0''), (''id'', PStr ''1''), (''result'', PInt 1),
                   (''error'', PDict [(''code'', PInt 1), (''message'', PStr ''x'')])])) =
     Inr \<lparr> result = PInt 1,
           error = PDict [(''code'', PInt 1), (''message'', PStr ''x'')],
           id_resp = PStr ''1'', jsonrpc_resp = PStr ''2.0'',
           metadata_resp = [], timestamp_resp = 0 \<rparr> \<and>
   \<not> exactly_one \<lparr> result = PInt 1,
           error = PDict [(''code'', PInt 1), (''message'', PStr ''x'')],
           id_resp = PStr ''1'', jsonrpc_resp = PStr ''2.0'',
           metadata_resp = [], timestamp_resp = 0 \<rparr>"
  by (simp add: Response_from_bytes_def dict_get_def exactly_one_def)

section \<open>The chain\<close>

text \<open>A loop that returns has called every stage it was given, in the order given.\<close>

lemma process_request_loop_returns:
  "process_request_loop ps request = (calls, None, r) \<Longrightarrow> calls = map (OnRequest \<circ> fst) ps"
proof (induction ps arbitrary: request calls)
  case Nil
  then show ?case by simp
next
  case (Cons p ps)
  obtain i mw where p: "p = (i, mw)" by (cases p)
  from Cons.prems p obtain request' where
    step: "process_request mw request = (None, request')"
    by (auto split: prod.splits option.splits)
  obtain calls' x r' where rest: "process_request_loop ps request' = (calls', x, r')"
    by (cases "process_request_loop ps request'")
  from Cons.prems p step rest have "calls = OnRequest i # calls'" and "x = None" and "r' = r"
    by auto
  with Cons.IH rest p show ?case by auto
qed

lemma process_response_loop_returns:
  "process_response_loop ps response request = (calls, Inr r) \<Longrightarrow>
     calls = map (OnResponse \<circ> fst) ps"
proof (induction ps arbitrary: response calls)
  case Nil
  then show ?case by simp
next
  case (Cons p ps)
  obtain i mw where p: "p = (i, mw)" by (cases p)
  from Cons.prems p obtain response' where
    step: "process_response mw response request = Inr response'"
    by (auto split: prod.splits sum.splits)
  obtain calls' x where rest: "process_response_loop ps response' request = (calls', x)"
    by (cases "process_response_loop ps response' request")
  from Cons.prems p step rest have "calls = OnResponse i # calls'" and "x = Inr r"
    by auto
  with Cons.IH rest p show ?case by auto
qed

text \<open>A loop that has gone through a first part of its stages goes on with the rest.\<close>

lemma process_request_loop_append:
  "process_request_loop ps request = (calls, None, r) \<Longrightarrow>
     process_request_loop (ps @ qs) request =
       (case process_request_loop qs r of (calls', x) \<Rightarrow> (calls @ calls', x))"
proof (induction ps arbitrary: request calls)
  case Nil
  then show ?case by simp
next
  case (Cons p ps)
  obtain i mw where p: "p = (i, mw)" by (cases p)
  from Cons.prems p obtain request' where
    step: "process_request mw request = (None, request')"
    by (auto split: prod.splits option.splits)
  obtain calls' x r' where rest: "process_request_loop ps request' = (calls', x, r')"
    by (cases "process_request_loop ps request'")
  from Cons.prems p step rest have eqs: "calls = OnRequest i # calls'" "x = None" "r' = r"
    by auto
  from Cons.IH [of request' calls'] rest eqs
  have "process_request_loop (ps @ qs) request' =
          (case process_request_loop qs r of (calls'', x) \<Rightarrow> (calls' @ calls'', x))"
    by simp
  with p step eqs show ?case by (simp split: prod.splits)
qed

text \<open>The request loop calls nothing but \<open>process_request\<close>.\<close>

lemma process_request_loop_events:
  "process_request_loop ps request = (calls, x, r) \<Longrightarrow> ev \<in> set calls \<Longrightarrow>
     \<exists>i. ev = OnRequest i"
proof (induction ps arbitrary: request calls x r)
  case Nil
  then show ?case by simp
next
  case (Cons p ps)
  obtain i mw where p: "p = (i, mw)" by (cases p)
  show ?case
  proof (cases "process_request mw request")
    case (Pair raised request')
    show ?thesis
    proof (cases raised)
      case None
      obtain calls' y r' where rest: "process_request_loop ps request' = (calls', y, r')"
        by (cases "process_request_loop ps request'")
      from Cons.prems(1) p Pair None rest have "calls = OnRequest i # calls'" by simp
      with Cons.prems(2) Cons.IH [OF rest] show ?thesis by auto
    next
      case (Some e)
      with Cons.prems p Pair show ?thesis by auto
    qed
  qed
qed

text \<open>
  When the chain raises, \<open>handle_request\<close> answers with the error reply, and has called
  what the chain has called.
\<close>

lemma abort_generic:
  assumes "Request_from_bytes (uuid4 dr) (t_request dr) raw_request = Inr request"
    and "MiddlewareChain_process_request middleware request = (calls, Some e, request')"
  shows "handle_request middleware target dr raw_request = Some (calls, error_reply dr e)"
  using assms by (simp add: handle_request_def handle_request_try_def)

lemma error_reply_eq:
  "error_reply dr e =
     Json (PDict [(''jsonrpc'', PStr ''2.0''), (''id'', PNone),
                  (''error'', PDict [(''code'', PInt (- 32603)), (''message'', PStr (str e))])])"
  by (simp add: error_reply_def Response_to_bytes_def Response_error_def default_code_def)

text \<open>
  C1. Let the request decode, let the stages \<open>pre\<close> pass it on, and let the next stage
  \<open>s\<close> abort with the exception \<open>e\<close>. Then, whatever stages \<open>post\<close> follow and whatever
  the target server would do, the calls made are the calls of \<open>process_request\<close> of \<open>pre\<close>
  and of \<open>s\<close>, in this order, and nothing else: no stage after \<open>s\<close> is called, the router
  is not called, no \<open>process_response\<close> is called. The reply is the encoding of the error
  Response built from \<open>str(e)\<close>.
\<close>

theorem abort_short_circuits:
  assumes decoded: "Request_from_bytes (uuid4 dr) (t_request dr) raw_request = Inr request"
    and passed: "MiddlewareChain_process_request pre request = (calls, None, request1)"
    and aborts: "process_request s request1 = (Some e, request2)"
  shows "handle_request (pre @ s # post) target dr raw_request =
           Some (map OnRequest [0..<Suc (length pre)],
                 Json (PDict [(''jsonrpc'', PStr ''2.0''), (''id'', PNone),
                              (''error'', PDict [(''code'', PInt (- 32603)),
                                                 (''message'', PStr (str e))])]))"
proof -
  from passed have loop: "process_request_loop (enumerate 0 pre) request = (calls, None, request1)"
    by (simp add: MiddlewareChain_process_request_def)
  from process_request_loop_returns [OF loop]
  have calls: "calls = map OnRequest [0..<length pre]"
    by (simp flip: map_map)
  have "enumerate 0 (pre @ s # post) =
          enumerate 0 pre @ (length pre, s) # enumerate (Suc (length pre)) post"
    by (simp add: enumerate_append_eq)
  with process_request_loop_append [OF loop,
      of "(length pre, s) # enumerate (Suc (length pre)) post"] aborts
  have "MiddlewareChain_process_request (pre @ s # post) request =
          (calls @ [OnRequest (length pre)], Some e, request2)"
    by (simp add: MiddlewareChain_process_request_def)
  from abort_generic [OF decoded this] calls show ?thesis
    by (simp add: error_reply_eq)
qed

theorem abort_short_circuits_witness:
  "Request_from_bytes (uuid4 draws0) (t_request draws0) close_issue = Inr request0 \<and>
   MiddlewareChain_process_request [tagging ''a''] request0 =
     ([OnRequest 0], None, request0\<lparr>metadata_req := [(''a'', PBool True)]\<rparr>) \<and>
   process_request (blocking ''no'') (request0\<lparr>metadata_req := [(''a'', PBool True)]\<rparr>) =
     (Some (PermissionError ''no''), request0\<lparr>metadata_req := [(''a'', PBool True)]\<rparr>) \<and>
   handle_request ([tagging ''a''] @ blocking ''no'' # [tagging ''b'', tagging ''c''])
       (\<lambda>sent. Hangs) draws0 close_issue =
     Some ([OnRequest 0, OnRequest 1],
           Json (PDict [(''jsonrpc'', PStr ''2.0''), (''id'', PNone),
                        (''error'', PDict [(''code'', PInt (- 32603)),
                                           (''message'', PStr ''no'')])]))"
proof -
  have h1: "Request_from_bytes (uuid4 draws0) (t_request draws0) close_issue = Inr request0"
    by (simp add: run)
  have h2: "MiddlewareChain_process_request [tagging ''a''] request0 =
              ([OnRequest 0], None, request0\<lparr>metadata_req := [(''a'', PBool True)]\<rparr>)"
    by (simp add: run)
  have h3: "process_request (blocking ''no'') (request0\<lparr>metadata_req := [(''a'', PBool True)]\<rparr>) =
              (Some (PermissionError ''no''), request0\<lparr>metadata_req := [(''a'', PBool True)]\<rparr>)"
    by (simp add: run)
  from abort_short_circuits [OF h1 h2 h3, of "[tagging ''b'', tagging ''c'']" "\<lambda>sent. Hangs"]
    h1 h2 h3
  show ?thesis by simp
qed

text \<open>
  Whether a traversal returns or raises, \<open>process_request\<close> has called an initial part of
  the chain, in the order of the chain, and \<open>process_response\<close> an initial part of the
  reversed chain.
\<close>

lemma process_request_loop_prefix:
  "\<exists>k\<le>length ps. fst (process_request_loop ps request) = map (OnRequest \<circ> fst) (take k ps)"
proof (induction ps arbitrary: request)
  case Nil
  then show ?case by simp
next
  case (Cons p ps)
  obtain i mw where p: "p = (i, mw)" by (cases p)
  obtain raised request' where step: "process_request mw request = (raised, request')"
    by (cases "process_request mw request")
  show ?case
  proof (cases raised)
    case None
    from Cons.IH [of request'] obtain k where
      k: "k \<le> length ps"
         "fst (process_request_loop ps request') = map (OnRequest \<circ> fst) (take k ps)"
      by blast
    with p step None
    have "fst (process_request_loop (p # ps) request) =
            map (OnRequest \<circ> fst) (take (Suc k) (p # ps))"
      by (cases "process_request_loop ps request'") simp
    with k(1) show ?thesis by (intro exI [of _ "Suc k"]) simp
  next
    case (Some e)
    with p step
    have "fst (process_request_loop (p # ps) request) =
            map (OnRequest \<circ> fst) (take (Suc 0) (p # ps))"
      by simp
    then show ?thesis by (intro exI [of _ "Suc 0"]) simp
  qed
qed

lemma process_response_loop_prefix:
  "\<exists>k\<le>length ps. fst (process_response_loop ps response request) =
     map (OnResponse \<circ> fst) (take k ps)"
proof (induction ps arbitrary: response)
  case Nil
  then show ?case by simp
next
  case (Cons p ps)
  obtain i mw where p: "p = (i, mw)" by (cases p)
  show ?case
  proof (cases "process_response mw response request")
    case (Inr response')
    from Cons.IH [of response'] obtain k where
      k: "k \<le> length ps"
         "fst (process_response_loop ps response' request) = map (OnResponse \<circ> fst) (take k ps)"
      by blast
    with p Inr
    have "fst (process_response_loop (p # ps) response request) =
            map (OnResponse \<circ> fst) (take (Suc k) (p # ps))"
      by (cases "process_response_loop ps response' request") simp
    with k(1) show ?thesis by (intro exI [of _ "Suc k"]) simp
  next
    case (Inl e)
    with p
    have "fst (process_response_loop (p # ps) response request) =
            map (OnResponse \<circ> fst) (take (Suc 0) (p # ps))"
      by simp
    then show ?thesis by (intro exI [of _ "Suc 0"]) simp
  qed
qed

lemma visits_in_order:
  "\<exists>k\<le>length middleware.
     fst (MiddlewareChain_process_request middleware request) =
       map OnRequest (take k [0..<length middleware])"
proof -
  have "map fst (take k (enumerate 0 middleware)) = take k [0..<length middleware]" for k
    by (simp flip: take_map)
  with process_request_loop_prefix [of "enumerate 0 middleware" request]
  show ?thesis
    by (auto simp add: MiddlewareChain_process_request_def simp flip: map_map)
qed

lemma visits_in_reverse_order:
  "\<exists>k\<le>length middleware.
     fst (MiddlewareChain_process_response middleware response request) =
       map OnResponse (take k (rev [0..<length middleware]))"
proof -
  have "map fst (rev (enumerate 0 middleware)) = rev [0..<length middleware]"
    by (simp flip: rev_map)
  then have "map fst (take k (rev (enumerate 0 middleware))) = take k (rev [0..<length middleware])" for k
    by (simp flip: take_map)
  with process_response_loop_prefix [of "rev (enumerate 0 middleware)" response request]
  show ?thesis
    by (auto simp add: MiddlewareChain_process_response_def simp flip: map_map)
qed

text \<open>
  C3. When \<open>process_request\<close> goes through the chain without an exception it has called
  the stages in the order of the chain, all of them; when \<open>process_response\<close> goes through
  the chain without an exception it has called them in the reverse of that order. This
  holds for every list of stages.
\<close>

theorem reverse_order:
  assumes "MiddlewareChain_process_request middleware request = (calls, None, request')"
    and "MiddlewareChain_process_response middleware response request'' = (calls', Inr response')"
  shows "calls = map OnRequest [0..<length middleware] \<and>
         calls' = map OnResponse (rev [0..<length middleware])"
proof -
  have "map fst (rev (enumerate 0 middleware)) = rev [0..<length middleware]"
    by (simp flip: rev_map)
  with process_request_loop_returns [of "enumerate 0 middleware" request calls request']
    process_response_loop_returns [of "rev (enumerate 0 middleware)" response request'' calls'
      response']
    assms
  show ?thesis
    by (simp add: MiddlewareChain_process_request_def MiddlewareChain_process_response_def
        flip: map_map)
qed

theorem reverse_order_witness:
  "MiddlewareChain_process_request [tagging ''a'', tagging ''b'', tagging ''c''] request0 =
     ([OnRequest 0, OnRequest 1, OnRequest 2], None,
      request0\<lparr>metadata_req := [(''a'', PBool True), (''b'', PBool True), (''c'', PBool True)]\<rparr>) \<and>
   MiddlewareChain_process_response [tagging ''a'', tagging ''b'', tagging ''c'']
       (Response_error 0 ''x'' 1) request0 =
     ([OnResponse 2, OnResponse 1, OnResponse 0],
      Inr ((Response_error 0 ''x'' 1)
             \<lparr>metadata_resp := [(''c'', PBool True), (''b'', PBool True), (''a'', PBool True)]\<rparr>)) \<and>
   [OnRequest 0, OnRequest 1, OnRequest 2] = map OnRequest [0..<3] \<and>
   [OnResponse 2, OnResponse 1, OnResponse 0] = map OnResponse (rev [0..<3])"
proof -
  let ?chain = "[tagging ''a'', tagging ''b'', tagging ''c'']"
  have h1: "MiddlewareChain_process_request ?chain request0 =
     ([OnRequest 0, OnRequest 1, OnRequest 2], None,
      request0\<lparr>metadata_req := [(''a'', PBool True), (''b'', PBool True), (''c'', PBool True)]\<rparr>)"
    by (simp add: run)
  have h2: "MiddlewareChain_process_response ?chain (Response_error 0 ''x'' 1) request0 =
     ([OnResponse 2, OnResponse 1, OnResponse 0],
      Inr ((Response_error 0 ''x'' 1)
             \<lparr>metadata_resp := [(''c'', PBool True), (''b'', PBool True), (''a'', PBool True)]\<rparr>))"
    by (simp add: run)
  from reverse_order [OF h1 h2] h1 h2 show ?thesis
    by (simp add: numeral_3_eq_3)
qed

section \<open>The proxy\<close>

lemma decoded_metadata_empty:
  "Request_from_bytes uuid now raw_request = Inr request \<Longrightarrow> metadata_req request = []"
  by (auto simp add: Request_from_bytes_def split: bytes.splits pyval.splits)

lemma security_unauthenticated:
  "absent (authenticate co request) \<Longrightarrow>
     SecurityMiddleware_process_request repr co config request =
       (Some (PermissionError ''Authentication failed''), request)"
  by (cases "authenticate co request") (simp_all add: SecurityMiddleware_process_request_def)




lemma proxy_chain_unauthenticated:
  "absent (authenticate co request) \<Longrightarrow>
     MiddlewareChain_process_request (init_middleware repr co config dr) request =
       ([OnRequest 0], Some (PermissionError ''Authentication failed''), request)"
  by (simp add: MiddlewareChain_process_request_def init_middleware_def SecurityMiddleware_def
      security_unauthenticated)

text \<open>
  None of the four stages touches the id, the result or the error of a Response.
\<close>

lemma proxy_response_chain_keeps:
  assumes "MiddlewareChain_process_response (init_middleware repr co config dr) response request =
             (calls', Inr r')"
  shows "id_resp r' = id_resp response \<and> error r' = error response \<and>
         result r' = result response \<and> jsonrpc_resp r' = jsonrpc_resp response"
  using assms
  by (auto simp add: MiddlewareChain_process_response_def init_middleware_def
      SecurityMiddleware_def ObservabilityMiddleware_def GovernanceMiddleware_def
      CostManagementMiddleware_def SecurityMiddleware_process_response_def
      GovernanceMiddleware_process_response_def CostManagementMiddleware_process_response_def
      ObservabilityMiddleware_process_response_def Let_def split: sum.splits)

lemma Response_from_bytes_Inr:
  "Response_from_bytes now raw = Inr response \<Longrightarrow>
     \<exists>d. raw = Json (PDict d) \<and> id_resp response = dict_get d ''id'' PNone"
  by (auto simp add: Response_from_bytes_def split: bytes.splits pyval.splits)

lemma error_reply_id: "map_of (members (error_reply dr e)) ''id'' = Some PNone"
  by (simp add: error_reply_eq members_def)

lemma Response_to_bytes_id: "map_of (members (Response_to_bytes r)) ''id'' = Some (id_resp r)"
  by (simp add: Response_to_bytes_def members_def)

lemma forward_Inr: "MCPRouter_forward target sent = Some (Inr raw) \<Longrightarrow> target sent = Replies raw"
  by (auto simp add: MCPRouter_forward_def split: io.splits)

text \<open>
  C2, as amended. The proxy never copies the id of the Request into a Response. When the
  call ends in the exception handler (the request does not decode, a stage aborts, the
  router fails, the reply of the target server does not decode, a stage fails on the
  response) the reply carries the id null. Otherwise the router was called, the target
  server answered a JSON object, and the reply carries the id member of that object (null
  if it has none): it equals the id of the Request only if the target server echoes it.
\<close>

theorem reply_id:
  assumes "EnterpriseProxy_handle_request repr co config target dr raw_request =
             Some (calls, reply)"
  shows "(\<exists>e. handle_request_try (init_middleware repr co config dr) target dr raw_request =
                Some (calls, Inl e) \<and>
              map_of (members reply) ''id'' = Some PNone) \<or>
         (\<exists>sent d. handle_request_try (init_middleware repr co config dr) target dr raw_request =
                Some (calls, Inr reply) \<and>
              Forward sent \<in> set calls \<and> target sent = Replies (Json (PDict d)) \<and>
              map_of (members reply) ''id'' = Some (dict_get d ''id'' PNone))"
proof (cases "handle_request_try (init_middleware repr co config dr) target dr raw_request")
  case None
  with assms show ?thesis
    by (simp add: EnterpriseProxy_handle_request_def handle_request_def)
next
  case (Some tried)
  obtain calls0 outcome where tried: "tried = (calls0, outcome)" by (cases tried)
  show ?thesis
  proof (cases outcome)
    case (Inl e)
    with assms Some tried have "calls0 = calls" "reply = error_reply dr e"
      by (simp_all add: EnterpriseProxy_handle_request_def handle_request_def)
    with Some tried Inl show ?thesis by (simp add: error_reply_id)
  next
    case (Inr out)
    with assms Some tried have eqs: "calls0 = calls" "out = reply"
      by (simp_all add: EnterpriseProxy_handle_request_def handle_request_def)
    from Some tried Inr eqs obtain calls1 processed raw_response response calls2 r' where
      fwd: "MCPRouter_forward target (Request_to_bytes processed) = Some (Inr raw_response)"
      and dec: "Response_from_bytes (t_response dr) raw_response = Inr response"
      and chain: "MiddlewareChain_process_response (init_middleware repr co config dr)
                    response processed = (calls2, Inr r')"
      and calls: "calls = calls1 @ Forward (Request_to_bytes processed) # calls2"
      and reply: "reply = Response_to_bytes r'"
      by (auto simp add: handle_request_try_def Let_def
          split: sum.splits prod.splits option.splits)
    from Response_from_bytes_Inr [OF dec] obtain d where
      d: "raw_response = Json (PDict d)" "id_resp response = dict_get d ''id'' PNone"
      by blast
    from proxy_response_chain_keeps [OF chain] d have "id_resp r' = dict_get d ''id'' PNone"
      by simp
    with reply have "map_of (members reply) ''id'' = Some (dict_get d ''id'' PNone)"
      by (simp add: Response_to_bytes_id)
    moreover from forward_Inr [OF fwd] d
    have "target (Request_to_bytes processed) = Replies (Json (PDict d))"
      by simp
    moreover from calls have "Forward (Request_to_bytes processed) \<in> set calls"
      by simp
    ultimately show ?thesis using Some tried Inr eqs by blast
  qed
qed

theorem reply_id_witness:
  "EnterpriseProxy_handle_request repr0 shipped config0 echo draws0 close_issue =
     Some ([OnRequest 0, OnRequest 1, OnRequest 2, OnRequest 3,
            Forward (Json (PDict [(''jsonrpc'', PStr ''2.0''), (''method'', PStr ''issues.close''),
                                  (''params'', PDict []), (''id'', PStr ''1'')])),
            OnResponse 3, OnResponse 2, OnResponse 1, OnResponse 0],
           Json (PDict [(''jsonrpc'', PStr ''2.0''), (''id'', PStr ''1''),
                        (''result'', PStr ''ok'')])) \<and>
   (\<exists>sent d. Forward sent \<in> set [OnRequest 0, OnRequest 1, OnRequest 2, OnRequest 3,
            Forward (Json (PDict [(''jsonrpc'', PStr ''2.0''), (''method'', PStr ''issues.close''),
                                  (''params'', PDict []), (''id'', PStr ''1'')])),
            OnResponse 3, OnResponse 2, OnResponse 1, OnResponse 0] \<and>
          echo sent = Replies (Json (PDict d)) \<and>
          Some (PStr ''1'') = Some (dict_get d ''id'' PNone))"
proof -
  let ?calls = "[OnRequest 0, OnRequest 1, OnRequest 2, OnRequest 3,
            Forward (Json (PDict [(''jsonrpc'', PStr ''2.0''), (''method'', PStr ''issues.close''),
                                  (''params'', PDict []), (''id'', PStr ''1'')])),
            OnResponse 3, OnResponse 2, OnResponse 1, OnResponse 0]"
  let ?reply = "Json (PDict [(''jsonrpc'', PStr ''2.0''), (''id'', PStr ''1''),
                        (''result'', PStr ''ok'')])"
  have h: "EnterpriseProxy_handle_request repr0 shipped config0 echo draws0 close_issue =
             Some (?calls, ?reply)"
    by (simp add: run)
  have id: "map_of (members ?reply) ''id'' = Some (PStr ''1'')"
    by (simp add: members_def)
  from reply_id [OF h] id h show ?thesis
    by (auto simp del: set_simps)
qed

text \<open>
  C2 as stated fails when a stage aborts: the user is not authorized, the request
  has the id 1, the reply has the id null.
\<close>

theorem reply_id_null_on_abort:
  "EnterpriseProxy_handle_request repr0 forbidding config0 echo draws0 close_issue =
     Some ([OnRequest 0],
           Json (PDict [(''jsonrpc'', PStr ''2.0''), (''id'', PNone),
                        (''error'', PDict [(''code'', PInt (- 32603)),
                           (''message'',
                            PStr ''User demo_user not authorized for issues.close'')])]))"
  by (simp add: run)

text \<open>
  C4, as amended. When a stage aborts during request processing, the exception handler
  builds the error Response and encodes it at once: the error Response does not pass
  through \<open>process_response\<close>, no stage's \<open>process_response\<close> is called, and the metadata
  of the error Response stay empty (no duration is recorded). When the abort is that of an
  unauthenticated request, the security stage has been the only one called and the
  metadata of the Request have no user.
\<close>

theorem abort_skips_process_response:
  assumes decoded: "Request_from_bytes (uuid4 dr) (t_request dr) raw_request = Inr request"
    and aborts: "MiddlewareChain_process_request (init_middleware repr co config dr) request =
                   (calls, Some e, request')"
  shows "EnterpriseProxy_handle_request repr co config target dr raw_request =
           Some (calls, Response_to_bytes (Response_error (t_error dr) (str e) default_code)) \<and>
         metadata_resp (Response_error (t_error dr) (str e) default_code) = [] \<and>
         (\<forall>i. OnResponse i \<notin> set calls) \<and>
         (absent (authenticate co request) \<longrightarrow>
            calls = [OnRequest 0] \<and> e = PermissionError ''Authentication failed'' \<and>
            map_of (metadata_req request') ''user'' = None)"
proof -
  have reply: "EnterpriseProxy_handle_request repr co config target dr raw_request =
                 Some (calls, Response_to_bytes (Response_error (t_error dr) (str e) default_code))"
    using abort_generic [OF decoded aborts]
    by (simp add: EnterpriseProxy_handle_request_def error_reply_def)
  have none: "\<forall>i. OnResponse i \<notin> set calls"
    using aborts process_request_loop_events
    by (fastforce simp add: MiddlewareChain_process_request_def)
  have unauth: "calls = [OnRequest 0] \<and> e = PermissionError ''Authentication failed'' \<and>
                map_of (metadata_req request') ''user'' = None"
    if "absent (authenticate co request)"
    using proxy_chain_unauthenticated [OF that, of repr config dr] aborts
      decoded_metadata_empty [OF decoded]
    by simp
  from reply none unauth show ?thesis
    by (simp add: Response_error_def)
qed

theorem abort_skips_process_response_witness:
  "Request_from_bytes (uuid4 draws0) (t_request draws0) close_issue = Inr request0 \<and>
   MiddlewareChain_process_request (init_middleware repr0 strangers config0 draws0) request0 =
     ([OnRequest 0], Some (PermissionError ''Authentication failed''), request0) \<and>
   absent (authenticate strangers request0) \<and>
   EnterpriseProxy_handle_request repr0 strangers config0 echo draws0 close_issue =
     Some ([OnRequest 0],
           Response_to_bytes (Response_error (t_error draws0) ''Authentication failed''
                                default_code)) \<and>
   map_of (metadata_req request0) ''user'' = None"
proof -
  have h1: "Request_from_bytes (uuid4 draws0) (t_request draws0) close_issue = Inr request0"
    by (simp add: run)
  have h2: "MiddlewareChain_process_request (init_middleware repr0 strangers config0 draws0)
              request0 =
              ([OnRequest 0], Some (PermissionError ''Authentication failed''), request0)"
    by (simp add: run)
  have h3: "absent (authenticate strangers request0)"
    by (simp add: run)
  from abort_skips_process_response [OF h1 h2, of echo] h1 h2 h3 show ?thesis
    by simp
qed

text \<open>
  C4 as stated fails on an unauthenticated request: the only call is that of the
  security stage's \<open>process_request\<close>; the observability stage, at position 1, is not
  called on the error Response, and the reply has nothing but jsonrpc, id and error.
\<close>

theorem unauthenticated_reply_skips_observability:
  "EnterpriseProxy_handle_request repr0 strangers config0 echo draws0 close_issue =
     Some ([OnRequest 0],
           Json (PDict [(''jsonrpc'', PStr ''2.0''), (''id'', PNone),
                        (''error'', PDict [(''code'', PInt (- 32603)),
                                           (''message'', PStr ''Authentication failed'')])]))"
  by (simp add: run)




text \<open>
  With the \<^verbatim>\<open>_get_approval\<close> of the repository the same request is approved and forwarded.
\<close>

lemma shipped_approves_and_forwards:
  "EnterpriseProxy_handle_request repr0 shipped config0 echo draws0 close_issue =
     Some ([OnRequest 0, OnRequest 1, OnRequest 2, OnRequest 3,
            Forward (Json (PDict [(''jsonrpc'', PStr ''2.0''), (''method'', PStr ''issues.close''),
                                  (''params'', PDict []), (''id'', PStr ''1'')])),
            OnResponse 3, OnResponse 2, OnResponse 1, OnResponse 0],
           Json (PDict [(''jsonrpc'', PStr ''2.0''), (''id'', PStr ''1''),
                        (''result'', PStr ''ok'')]))"
  by (simp add: run)




end
